theory Spec2Isabelle
  imports Main "HOL-Library.Multiset"
begin

section \<open>Data model (server/src/db/schema.ts, server/src/schema.ts)\<close>

text \<open>
  Rows of the four tables. Integer columns are \<open>int\<close>, nullable columns are
  \<open>option\<close>, timestamps are abstract integers. Field names are the column names;
  the columns \<open>id\<close>, \<open>created_at\<close> and \<open>session_id\<close>, which several tables share,
  carry a table prefix, and the fields of the feedback object carry \<open>fb_\<close>.
\<close>

type_synonym timestamp = int

record Pokemon =
  p_id :: int
  name :: string
  type1 :: string
  type2 :: "string option"
  evolution_count :: int
  is_final_evolution :: bool
  color :: string
  habitat :: "string option"
  generation :: int
  sprite_url :: string
  p_created_at :: timestamp

record DailyPokemon =
  dp_id :: int
  date :: string
  pokemon_id :: int
  dp_created_at :: timestamp

record GameSession =
  gs_id :: int
  session_id :: string
  daily_pokemon_id :: int
  max_guesses :: int
  current_guesses :: int
  is_completed :: bool
  is_won :: bool
  gs_created_at :: timestamp
  completed_at :: "timestamp option"

record GameGuess =
  gg_id :: int
  gg_session_id :: string
  guess_number :: int
  guessed_pokemon_id :: int
  is_correct :: bool
  gg_created_at :: timestamp

text \<open>The two string enums of \<open>guessFeedbackSchema\<close>.\<close>

datatype match_feedback = correct | incorrect

datatype order_feedback = correct_order | higher | lower

record GuessFeedback =
  fb_type1 :: match_feedback
  fb_type2 :: match_feedback
  fb_evolution_count :: order_feedback
  fb_is_final_evolution :: match_feedback
  fb_color :: match_feedback
  fb_habitat :: match_feedback
  fb_generation :: order_feedback

record GuessEntry =
  guess :: GameGuess
  pokemon :: Pokemon
  feedback :: GuessFeedback

record GameState =
  session :: GameSession
  target_pokemon :: "Pokemon option"
  guesses :: "GuessEntry list"
  can_guess :: bool

record MakeGuessInput =
  mg_session_id :: string
  pokemon_name :: string

record GetGameSessionInput =
  gs_session_id :: string

section \<open>Feedback engine\<close>

text \<open>
  The object literal built inside \<open>makeGuess\<close> for each guess row
  (\<open>guessed\<close> stands for the row's \<open>pokemon\<close>, the guessed entity).
\<close>

definition makeGuess_feedback :: "Pokemon \<Rightarrow> Pokemon \<Rightarrow> GuessFeedback" where
  "makeGuess_feedback guessed targetPokemon =
     \<lparr> fb_type1 = (if type1 guessed = type1 targetPokemon then correct else incorrect),
       fb_type2 = (if type2 guessed = type2 targetPokemon then correct else incorrect),
       fb_evolution_count =
         (if evolution_count guessed = evolution_count targetPokemon then correct_order
          else if evolution_count guessed < evolution_count targetPokemon then higher
          else lower),
       fb_is_final_evolution =
         (if is_final_evolution guessed = is_final_evolution targetPokemon
          then correct else incorrect),
       fb_color = (if color guessed = color targetPokemon then correct else incorrect),
       fb_habitat = (if habitat guessed = habitat targetPokemon then correct else incorrect),
       fb_generation =
         (if generation guessed = generation targetPokemon then correct_order
          else if generation guessed < generation targetPokemon then higher
          else lower) \<rparr>"

text \<open>\<open>generateFeedback\<close> of get_game_session.ts.\<close>

definition generateFeedback :: "Pokemon \<Rightarrow> Pokemon \<Rightarrow> GuessFeedback" where
  "generateFeedback guessedPokemon targetPokemon =
     \<lparr> fb_type1 = (if type1 guessedPokemon = type1 targetPokemon then correct else incorrect),
       fb_type2 = (if type2 guessedPokemon = type2 targetPokemon then correct else incorrect),
       fb_evolution_count =
         (if evolution_count guessedPokemon = evolution_count targetPokemon then correct_order
          else if evolution_count guessedPokemon > evolution_count targetPokemon then lower
          else higher),
       fb_is_final_evolution =
         (if is_final_evolution guessedPokemon = is_final_evolution targetPokemon
          then correct else incorrect),
       fb_color = (if color guessedPokemon = color targetPokemon then correct else incorrect),
       fb_habitat =
         (if habitat guessedPokemon = habitat targetPokemon then correct else incorrect),
       fb_generation =
         (if generation guessedPokemon = generation targetPokemon then correct_order
          else if generation guessedPokemon > generation targetPokemon then lower
          else higher) \<rparr>"

text \<open>The feedback whose seven verdicts are all "correct".\<close>

definition all_correct :: GuessFeedback where
  "all_correct =
     \<lparr> fb_type1 = correct, fb_type2 = correct, fb_evolution_count = correct_order,
       fb_is_final_evolution = correct, fb_color = correct, fb_habitat = correct,
       fb_generation = correct_order \<rparr>"

text \<open>
  The entities of the scenario: the seven compared attributes are fixed, the
  identifier, name, sprite and creation time are arbitrary.
\<close>

definition scenario_target :: "int \<Rightarrow> string \<Rightarrow> string \<Rightarrow> timestamp \<Rightarrow> Pokemon" where
  "scenario_target i n u c =
     \<lparr> p_id = i, name = n, type1 = ''electric'', type2 = None, evolution_count = 2,
       is_final_evolution = False, color = ''yellow'', habitat = Some ''forest'',
       generation = 1, sprite_url = u, p_created_at = c \<rparr>"

definition scenario_guess :: "int \<Rightarrow> string \<Rightarrow> string \<Rightarrow> timestamp \<Rightarrow> Pokemon" where
  "scenario_guess i n u c =
     \<lparr> p_id = i, name = n, type1 = ''fire'', type2 = Some ''flying'', evolution_count = 3,
       is_final_evolution = True, color = ''red'', habitat = Some ''mountain'',
       generation = 1, sprite_url = u, p_created_at = c \<rparr>"

definition scenario_feedback :: GuessFeedback where
  "scenario_feedback =
     \<lparr> fb_type1 = incorrect, fb_type2 = incorrect, fb_evolution_count = lower,
       fb_is_final_evolution = incorrect, fb_color = incorrect, fb_habitat = incorrect,
       fb_generation = correct_order \<rparr>"

section \<open>Storage\<close>

text \<open>
  The database handle \<open>db\<close> of the handlers, as an explicit state: each table is the
  list of its rows in storage order, and a query without ORDER BY returns the rows in
  that order (PostgreSQL promises no order for such a query; the list order stands for
  whichever order it delivers). \<open>game_guess_id_seq\<close> is the sequence behind the serial column
  \<open>game_guess.id\<close>.
\<close>

record DB =
  pokemonTable :: "Pokemon list"
  dailyPokemonTable :: "DailyPokemon list"
  gameSessionTable :: "GameSession list"
  gameGuessTable :: "GameGuess list"
  game_guess_id_seq :: int

text \<open>
  The errors the handlers throw, by message: 'Game session not found', 'Game session is
  already completed', 'Maximum guesses reached', 'Pokemon not found'; \<open>TypeError\<close> is
  what reading a property of \<open>updatedSessionResults[0]\<close> throws when that query is empty.
\<close>

datatype error =
  GameSessionNotFound
  | GameSessionAlreadyCompleted
  | MaximumGuessesReached
  | PokemonNotFound
  | TypeError

text \<open>
  \<open>game_session INNER JOIN daily_pokemon INNER JOIN pokemon WHERE session_id = sid\<close>,
  the first query of both handlers.
\<close>

definition gameSessionResults :: "DB \<Rightarrow> string \<Rightarrow> (GameSession \<times> DailyPokemon \<times> Pokemon) list" where
  "gameSessionResults db sid =
     [(s, d, p).
        s \<leftarrow> gameSessionTable db,
        d \<leftarrow> dailyPokemonTable db, daily_pokemon_id s = dp_id d,
        p \<leftarrow> pokemonTable db, pokemon_id d = p_id p,
        session_id s = sid]"

text \<open>
  \<open>String.prototype.toLowerCase\<close> on the ASCII letters (a \<open>char\<close> is a byte); letters
  outside ASCII, which JavaScript also folds, are left as they are. The general theorems
  below do not depend on what this function computes.
\<close>

definition toLowerCase_char :: "char \<Rightarrow> char" where
  "toLowerCase_char c =
     (let n = (of_char c :: nat) in if 65 \<le> n \<and> n \<le> 90 then char_of (n + 32) else c)"

definition toLowerCase :: "string \<Rightarrow> string" where
  "toLowerCase str = map toLowerCase_char str"

text \<open>\<open>SELECT * FROM pokemon WHERE name = nm\<close>.\<close>

definition guessedPokemonResults :: "DB \<Rightarrow> string \<Rightarrow> Pokemon list" where
  "guessedPokemonResults db nm = filter (\<lambda>p. name p = nm) (pokemonTable db)"

text \<open>\<open>SELECT * FROM game_session WHERE session_id = sid\<close>.\<close>

definition updatedSessionResults :: "DB \<Rightarrow> string \<Rightarrow> GameSession list" where
  "updatedSessionResults db sid = filter (\<lambda>s. session_id s = sid) (gameSessionTable db)"

text \<open>\<open>game_guess INNER JOIN pokemon WHERE game_guess.session_id = sid\<close>.\<close>

definition guessResults :: "DB \<Rightarrow> string \<Rightarrow> (GameGuess \<times> Pokemon) list" where
  "guessResults db sid =
     [(g, p).
        g \<leftarrow> gameGuessTable db,
        p \<leftarrow> pokemonTable db, guessed_pokemon_id g = p_id p,
        gg_session_id g = sid]"

text \<open>
  \<open>db.insert(gameGuessTable).values({...})\<close>: the row is appended, \<open>id\<close> comes from the
  sequence and \<open>created_at\<close> from the clock.
\<close>

definition insert_game_guess :: "DB \<Rightarrow> timestamp \<Rightarrow> string \<Rightarrow> int \<Rightarrow> int \<Rightarrow> bool \<Rightarrow> DB" where
  "insert_game_guess db now sid newGuessNumber guessed_id isCorrect =
     db \<lparr> gameGuessTable := gameGuessTable db @
            [\<lparr> gg_id = game_guess_id_seq db, gg_session_id = sid,
               guess_number = newGuessNumber, guessed_pokemon_id = guessed_id,
               is_correct = isCorrect, gg_created_at = now \<rparr>],
          game_guess_id_seq := game_guess_id_seq db + 1 \<rparr>"

text \<open>
  \<open>db.update(gameSessionTable).set({...}).where(session_id = sid)\<close>: every row with
  that session id gets the four columns.
\<close>

definition update_game_session ::
    "DB \<Rightarrow> string \<Rightarrow> int \<Rightarrow> bool \<Rightarrow> bool \<Rightarrow> timestamp option \<Rightarrow> DB" where
  "update_game_session db sid newGuessNumber isGameComplete isCorrect completedAt =
     db \<lparr> gameSessionTable :=
            map (\<lambda>s. if session_id s = sid
                      then s \<lparr> current_guesses := newGuessNumber,
                               is_completed := isGameComplete,
                               is_won := isCorrect,
                               completed_at := completedAt \<rparr>
                      else s)
                (gameSessionTable db) \<rparr>"

section \<open>Session state machine\<close>

text \<open>
  \<open>makeGuess\<close>: the state after the call and what the call returns (\<open>Inl\<close> the error
  thrown). \<open>now\<close> is the clock read by \<open>new Date()\<close>. The returned guesses are the
  rows of the last query, in the order the query gives them.
\<close>

definition makeGuess :: "DB \<Rightarrow> timestamp \<Rightarrow> MakeGuessInput \<Rightarrow> DB \<times> (error + GameState)" where
  "makeGuess db now input =
     (case gameSessionResults db (mg_session_id input) of
        [] \<Rightarrow> (db, Inl GameSessionNotFound)
      | (sessionRow, dailyRow, targetPokemon) # _ \<Rightarrow>
          if is_completed sessionRow then (db, Inl GameSessionAlreadyCompleted)
          else if current_guesses sessionRow \<ge> max_guesses sessionRow
          then (db, Inl MaximumGuessesReached)
          else
            (case guessedPokemonResults db (toLowerCase (pokemon_name input)) of
               [] \<Rightarrow> (db, Inl PokemonNotFound)
             | guessedPokemon # _ \<Rightarrow>
                 let isCorrect = (p_id guessedPokemon = p_id targetPokemon);
                     newGuessNumber = current_guesses sessionRow + 1;
                     isGameComplete = (isCorrect \<or> newGuessNumber \<ge> max_guesses sessionRow);
                     db1 = insert_game_guess db now (mg_session_id input) newGuessNumber
                             (p_id guessedPokemon) isCorrect;
                     db2 = update_game_session db1 (mg_session_id input) newGuessNumber
                             isGameComplete isCorrect
                             (if isGameComplete then Some now else None)
                 in
                   (case updatedSessionResults db2 (mg_session_id input) of
                      [] \<Rightarrow> (db2, Inl TypeError)
                    | updatedSession # _ \<Rightarrow>
                        (db2,
                         Inr \<lparr> session = updatedSession,
                               target_pokemon =
                                 (if is_completed updatedSession then Some targetPokemon
                                  else None),
                               guesses =
                                 map (\<lambda>(guessRow, guessed).
                                        \<lparr> guess = guessRow, pokemon = guessed,
                                          feedback = makeGuess_feedback guessed targetPokemon \<rparr>)
                                     (guessResults db2 (mg_session_id input)),
                               can_guess = (\<not> is_completed updatedSession) \<rparr>))))"

text \<open>
  \<open>getGameSession\<close>. \<open>Array.prototype.sort\<close> with the comparator
  \<open>a.guess.guess_number - b.guess.guess_number\<close> is a stable sort on that key.
\<close>

definition getGameSession :: "DB \<Rightarrow> GetGameSessionInput \<Rightarrow> error + GameState" where
  "getGameSession db input =
     (case gameSessionResults db (gs_session_id input) of
        [] \<Rightarrow> Inl GameSessionNotFound
      | (sessionRow, dailyRow, targetPokemon) # _ \<Rightarrow>
          let unsorted =
                map (\<lambda>(guessRow, guessedPokemon).
                       \<lparr> guess = guessRow, pokemon = guessedPokemon,
                         feedback = generateFeedback guessedPokemon targetPokemon \<rparr>)
                    (guessResults db (gs_session_id input));
              sorted_guesses = sort_key (\<lambda>e. guess_number (guess e)) unsorted;
              canGuess = (\<not> is_completed sessionRow
                          \<and> current_guesses sessionRow < max_guesses sessionRow)
          in Inr \<lparr> session = sessionRow,
                   target_pokemon = (if is_completed sessionRow then Some targetPokemon else None),
                   guesses = sorted_guesses,
                   can_guess = canGuess \<rparr>)"

section \<open>Session invariant\<close>

text \<open>The sequence numbers of the guesses stored for a session, in storage order.\<close>

definition session_guess_numbers :: "DB \<Rightarrow> string \<Rightarrow> int list" where
  "session_guess_numbers db sid =
     map guess_number (filter (\<lambda>g. gg_session_id g = sid) (gameGuessTable db))"

text \<open>
  The invariant of one session row: the count is within the budget, won implies
  completed, the completion time is there exactly when the session is completed, and
  the stored sequence numbers are \<open>1..current_guesses\<close>, each once.
\<close>

definition session_invariant :: "DB \<Rightarrow> GameSession \<Rightarrow> bool" where
  "session_invariant db s \<longleftrightarrow>
     current_guesses s \<le> max_guesses s
     \<and> (is_won s \<longrightarrow> is_completed s)
     \<and> (completed_at s \<noteq> None \<longleftrightarrow> is_completed s)
     \<and> sort (session_guess_numbers db (session_id s)) = [1..current_guesses s]"

text \<open>
  What the data model says of every stored state: a session identifier names one
  session row, and a guess count is not negative.
\<close>

definition well_formed :: "DB \<Rightarrow> bool" where
  "well_formed db \<longleftrightarrow>
     distinct (map session_id (gameSessionTable db))
     \<and> list_all (\<lambda>s. 0 \<le> current_guesses s) (gameSessionTable db)"

section \<open>Successful admission, named for the proofs\<close>

text \<open>
  The state a successful call of \<open>makeGuess\<close> leaves, for the joined session row
  \<open>s\<close>, the target \<open>t\<close> and the guessed entity \<open>g\<close>: the insert followed by the update.
\<close>

definition admitted :: "DB \<Rightarrow> timestamp \<Rightarrow> string \<Rightarrow> GameSession \<Rightarrow> Pokemon \<Rightarrow> Pokemon \<Rightarrow> DB" where
  "admitted db now sid s t g =
     update_game_session
       (insert_game_guess db now sid (current_guesses s + 1) (p_id g) (p_id g = p_id t))
       sid (current_guesses s + 1)
       (p_id g = p_id t \<or> current_guesses s + 1 \<ge> max_guesses s)
       (p_id g = p_id t)
       (if p_id g = p_id t \<or> current_guesses s + 1 \<ge> max_guesses s then Some now else None)"

text \<open>
  The view such a call returns: \<open>u\<close> is the first stored row of the session and
  \<open>rows\<close> the result of the last query.
\<close>

definition admitted_view ::
    "timestamp \<Rightarrow> GameSession \<Rightarrow> Pokemon \<Rightarrow> Pokemon \<Rightarrow> GameSession \<Rightarrow> (GameGuess \<times> Pokemon) list
       \<Rightarrow> GameState" where
  "admitted_view now s t g u rows =
     \<lparr> session = u \<lparr> current_guesses := current_guesses s + 1,
                      is_completed := (p_id g = p_id t \<or> current_guesses s + 1 \<ge> max_guesses s),
                      is_won := (p_id g = p_id t),
                      completed_at :=
                        (if p_id g = p_id t \<or> current_guesses s + 1 \<ge> max_guesses s
                         then Some now else None) \<rparr>,
       target_pokemon =
         (if p_id g = p_id t \<or> current_guesses s + 1 \<ge> max_guesses s then Some t else None),
       guesses =
         map (\<lambda>(guessRow, guessed).
                \<lparr> guess = guessRow, pokemon = guessed,
                  feedback = makeGuess_feedback guessed t \<rparr>) rows,
       can_guess = (\<not> (p_id g = p_id t \<or> current_guesses s + 1 \<ge> max_guesses s)) \<rparr>"

section \<open>Example states\<close>

definition pikachu :: Pokemon where
  "pikachu =
     \<lparr> p_id = 1, name = ''pikachu'', type1 = ''electric'', type2 = None,
       evolution_count = 1, is_final_evolution = False, color = ''yellow'',
       habitat = Some ''forest'', generation = 1,
       sprite_url = ''https://example.com/pikachu.png'', p_created_at = 0 \<rparr>"

definition charmander :: Pokemon where
  "charmander =
     \<lparr> p_id = 2, name = ''charmander'', type1 = ''fire'', type2 = None,
       evolution_count = 2, is_final_evolution = False, color = ''red'',
       habitat = Some ''mountain'', generation = 1,
       sprite_url = ''https://example.com/charmander.png'', p_created_at = 0 \<rparr>"

definition test_daily :: DailyPokemon where
  "test_daily = \<lparr> dp_id = 1, date = ''2024-01-01'', pokemon_id = 1, dp_created_at = 0 \<rparr>"

text \<open>A session on the target pikachu with a budget of \<open>m\<close> and \<open>n\<close> guesses made.\<close>

definition test_session :: "int \<Rightarrow> int \<Rightarrow> bool \<Rightarrow> GameSession" where
  "test_session m n fin =
     \<lparr> gs_id = 1, session_id = ''test-session-123'', daily_pokemon_id = 1,
       max_guesses = m, current_guesses = n, is_completed = fin, is_won = False,
       gs_created_at = 0, completed_at = (if fin then Some 0 else None) \<rparr>"

definition test_guess :: "int \<Rightarrow> int \<Rightarrow> GameGuess" where
  "test_guess i n =
     \<lparr> gg_id = i, gg_session_id = ''test-session-123'', guess_number = n,
       guessed_pokemon_id = 2, is_correct = False, gg_created_at = 0 \<rparr>"

definition test_db :: "GameSession \<Rightarrow> GameGuess list \<Rightarrow> DB" where
  "test_db s gs =
     \<lparr> pokemonTable = [pikachu, charmander], dailyPokemonTable = [test_daily],
       gameSessionTable = [s], gameGuessTable = gs,
       game_guess_id_seq = 1 + int (length gs) \<rparr>"

definition guess_input :: "string \<Rightarrow> MakeGuessInput" where
  "guess_input nm = \<lparr> mg_session_id = ''test-session-123'', pokemon_name = nm \<rparr>"

definition view_input :: GetGameSessionInput where
  "view_input = \<lparr> gs_session_id = ''test-session-123'' \<rparr>"

definition other_input :: MakeGuessInput where
  "other_input = \<lparr> mg_session_id = ''non-existent-session'', pokemon_name = ''pikachu'' \<rparr>"

text \<open>A session that used its whole budget and is not marked completed.\<close>

definition stuck_db :: DB where
  "stuck_db = test_db (test_session 2 2 False) [test_guess 1 1, test_guess 2 2]"

text \<open>A session whose two guesses are stored second guess first.\<close>

definition unordered_db :: DB where
  "unordered_db = test_db (test_session 6 2 False) [test_guess 1 2, test_guess 2 1]"

text \<open>A session whose stored guess count is negative, with no guesses stored.\<close>

definition negative_db :: DB where
  "negative_db = test_db (test_session 6 (- 1) False) []"

text \<open>
  Two session rows with the same session identifier, both with two guesses made, the
  first with a budget of 6 and the second with a budget of 2.
\<close>

definition duplicate_db :: DB where
  "duplicate_db =
     (test_db (test_session 6 2 False) [test_guess 1 1, test_guess 2 2])
       \<lparr> gameSessionTable :=
           [test_session 6 2 False, (test_session 2 2 False) \<lparr> gs_id := 2 \<rparr>] \<rparr>"

section \<open>Properties of the feedback engine\<close>

text \<open>
  C1. For the scenario pair (target electric / no second type / evolution count 2 /
  not final / yellow / forest / generation 1; guess fire / flying / 3 / final / red /
  mountain / generation 1) both feedback computations return incorrect, incorrect,
  lower, incorrect, incorrect, incorrect, correct.
\<close>

theorem scenario_feedback_both:
  "makeGuess_feedback (scenario_guess i n u c) (scenario_target i' n' u' c') = scenario_feedback
   \<and> generateFeedback (scenario_guess i n u c) (scenario_target i' n' u' c') = scenario_feedback"
  by (simp add: makeGuess_feedback_def generateFeedback_def scenario_guess_def
      scenario_target_def scenario_feedback_def)

text \<open>
  C2, as the code has it. The two feedback computations are the same function: none of
  them ever answers "higher" where the other answers "lower", and both answer "higher"
  exactly when the guessed value is below the target's and "lower" exactly when it is
  above.
\<close>

theorem feedback_implementations_agree:
  "makeGuess_feedback g t = generateFeedback g t
   \<and> (fb_evolution_count (generateFeedback g t) = higher
        \<longleftrightarrow> evolution_count g < evolution_count t)
   \<and> (fb_evolution_count (generateFeedback g t) = lower
        \<longleftrightarrow> evolution_count g > evolution_count t)
   \<and> (fb_generation (generateFeedback g t) = higher \<longleftrightarrow> generation g < generation t)
   \<and> (fb_generation (generateFeedback g t) = lower \<longleftrightarrow> generation g > generation t)"
  by (simp add: makeGuess_feedback_def generateFeedback_def)

text \<open>
  C2, as stated, fails: there is no pair of entities on which one computation answers
  "higher" and the other "lower", for the evolution count or for the generation.
\<close>

theorem no_opposite_verdicts:
  "\<not> (\<exists>g t.
        (fb_evolution_count (makeGuess_feedback g t) = higher
           \<and> fb_evolution_count (generateFeedback g t) = lower)
      \<or> (fb_evolution_count (makeGuess_feedback g t) = lower
           \<and> fb_evolution_count (generateFeedback g t) = higher)
      \<or> (fb_generation (makeGuess_feedback g t) = higher
           \<and> fb_generation (generateFeedback g t) = lower)
      \<or> (fb_generation (makeGuess_feedback g t) = lower
           \<and> fb_generation (generateFeedback g t) = higher)
      \<or> makeGuess_feedback g t \<noteq> generateFeedback g t)"
  by (simp add: makeGuess_feedback_def generateFeedback_def)

text \<open>
  C3. The feedback of an entity against itself is "correct" on all seven fields, in
  both computations, whatever its second type and habitat are (absent included).
\<close>

theorem feedback_reflexive:
  "makeGuess_feedback a a = all_correct \<and> generateFeedback a a = all_correct"
  by (simp add: makeGuess_feedback_def generateFeedback_def all_correct_def)

section \<open>Properties of the session state machine\<close>


lemma gameSessionResults_member:
  "(s, d, t) \<in> set (gameSessionResults db sid) \<Longrightarrow>
     s \<in> set (gameSessionTable db) \<and> session_id s = sid"
  by (auto simp: gameSessionResults_def split: if_splits)

lemma gameSessionResults_hd_member:
  "gameSessionResults db sid = (s, d, t) # rest \<Longrightarrow>
     s \<in> set (gameSessionTable db) \<and> session_id s = sid"
  using gameSessionResults_member [of s d t db sid] by simp

lemma updatedSessionResults_update:
  "updatedSessionResults (update_game_session db sid n c w ca) sid =
     map (\<lambda>s. s \<lparr> current_guesses := n, is_completed := c, is_won := w, completed_at := ca \<rparr>)
       (updatedSessionResults db sid)"
proof -
  have "filter (\<lambda>s. session_id s = sid)
          (map (\<lambda>s. if session_id s = sid
                    then s \<lparr> current_guesses := n, is_completed := c, is_won := w,
                             completed_at := ca \<rparr>
                    else s) xs) =
        map (\<lambda>s. s \<lparr> current_guesses := n, is_completed := c, is_won := w, completed_at := ca \<rparr>)
          (filter (\<lambda>s. session_id s = sid) xs)" for xs
    by (induction xs) auto
  then show ?thesis
    by (simp add: updatedSessionResults_def update_game_session_def)
qed

lemma updatedSessionResults_insert:
  "updatedSessionResults (insert_game_guess db now sid' n gid c) sid = updatedSessionResults db sid"
  by (simp add: updatedSessionResults_def insert_game_guess_def)

lemma updatedSessionResults_nonempty:
  "s \<in> set (gameSessionTable db) \<Longrightarrow> session_id s = sid \<Longrightarrow>
     \<exists>u us. updatedSessionResults db sid = u # us"
  by (cases "updatedSessionResults db sid") (auto simp: updatedSessionResults_def filter_empty_conv)

lemma admitted_rows:
  "updatedSessionResults (admitted db now sid s t g) sid =
     map (\<lambda>r. r \<lparr> current_guesses := current_guesses s + 1,
                    is_completed := (p_id g = p_id t \<or> current_guesses s + 1 \<ge> max_guesses s),
                    is_won := (p_id g = p_id t),
                    completed_at := (if p_id g = p_id t \<or> current_guesses s + 1 \<ge> max_guesses s
                                     then Some now else None) \<rparr>)
       (updatedSessionResults db sid)"
  unfolding admitted_def
  by (simp only: updatedSessionResults_update updatedSessionResults_insert)

lemma makeGuess_admit:
  assumes sel: "gameSessionResults db (mg_session_id input) = (s, d, t) # rest"
    and act: "\<not> is_completed s" and room: "current_guesses s < max_guesses s"
    and res: "guessedPokemonResults db (toLowerCase (pokemon_name input)) = g # rest'"
  shows "\<exists>u us. updatedSessionResults db (mg_session_id input) = u # us \<and>
     makeGuess db now input =
       (admitted db now (mg_session_id input) s t g,
        Inr (admitted_view now s t g u
               (guessResults (admitted db now (mg_session_id input) s t g) (mg_session_id input))))"
proof -
  from sel have "s \<in> set (gameSessionTable db) \<and> session_id s = mg_session_id input"
    by (rule gameSessionResults_hd_member)
  then obtain u us where u: "updatedSessionResults db (mg_session_id input) = u # us"
    using updatedSessionResults_nonempty by blast
  have rows: "updatedSessionResults (admitted db now (mg_session_id input) s t g) (mg_session_id input)
        = map (\<lambda>r. r \<lparr> current_guesses := current_guesses s + 1,
                        is_completed := (p_id g = p_id t \<or> current_guesses s + 1 \<ge> max_guesses s),
                        is_won := (p_id g = p_id t),
                        completed_at := (if p_id g = p_id t \<or> current_guesses s + 1 \<ge> max_guesses s
                                             then Some now else None) \<rparr>) (u # us)"
    by (simp only: admitted_rows u)
  have "makeGuess db now input =
       (admitted db now (mg_session_id input) s t g,
        Inr (admitted_view now s t g u
               (guessResults (admitted db now (mg_session_id input) s t g) (mg_session_id input))))"
    using sel act room res rows
    by (simp add: makeGuess_def Let_def admitted_def admitted_view_def)
  with u show ?thesis by blast
qed

text \<open>The five ways a call of \<open>makeGuess\<close> ends; reading the updated session never fails.\<close>

lemma makeGuess_outcome:
  "(gameSessionResults db (mg_session_id input) = [] \<and> makeGuess db now input = (db, Inl GameSessionNotFound))
   \<or> (\<exists>s d t rest. gameSessionResults db (mg_session_id input) = (s, d, t) # rest \<and>
        ((is_completed s \<and> makeGuess db now input = (db, Inl GameSessionAlreadyCompleted))
         \<or> (\<not> is_completed s \<and> current_guesses s \<ge> max_guesses s
              \<and> makeGuess db now input = (db, Inl MaximumGuessesReached))
         \<or> (\<not> is_completed s \<and> current_guesses s < max_guesses s
              \<and> guessedPokemonResults db (toLowerCase (pokemon_name input)) = []
              \<and> makeGuess db now input = (db, Inl PokemonNotFound))
         \<or> (\<not> is_completed s \<and> current_guesses s < max_guesses s
              \<and> (\<exists>g rest' u us.
                    guessedPokemonResults db (toLowerCase (pokemon_name input)) = g # rest'
                    \<and> updatedSessionResults db (mg_session_id input) = u # us
                    \<and> makeGuess db now input =
                        (admitted db now (mg_session_id input) s t g,
                         Inr (admitted_view now s t g u
                                (guessResults (admitted db now (mg_session_id input) s t g)
                                   (mg_session_id input))))))))"
proof (cases "gameSessionResults db (mg_session_id input)")
  case Nil
  then show ?thesis by (simp add: makeGuess_def)
next
  case (Cons x rest)
  obtain s d t where x: "x = (s, d, t)" by (cases x) auto
  note sel = Cons [unfolded x]
  show ?thesis
  proof (cases "is_completed s")
    case True
    with sel show ?thesis by (simp add: makeGuess_def)
  next
    case act: False
    show ?thesis
    proof (cases "current_guesses s < max_guesses s")
      case False
      with sel act show ?thesis by (simp add: makeGuess_def)
    next
      case room: True
      show ?thesis
      proof (cases "guessedPokemonResults db (toLowerCase (pokemon_name input))")
        case Nil
        with sel act room show ?thesis by (simp add: makeGuess_def)
      next
        case (Cons g rest')
        from makeGuess_admit [OF sel act room Cons, of now] sel act room Cons
        show ?thesis by auto
      qed
    qed
  qed
qed

text \<open>
  C4. When the session found for the request is not completed and has guesses left
  (\<open>current_guesses < max_guesses\<close>, however many), and the name resolves to an entity
  with the target's id, \<open>makeGuess\<close> succeeds, and the session is Completed-Won
  afterwards: completed, won and with a completion time, in the returned view and in
  every stored row of that session (there is at least one).
\<close>

theorem makeGuess_correct_guess_wins:
  assumes sel: "gameSessionResults db (mg_session_id input) = (s, d, t) # rest"
    and act: "\<not> is_completed s"
    and room: "current_guesses s < max_guesses s"
    and res: "guessedPokemonResults db (toLowerCase (pokemon_name input)) = g # rest'"
    and hit: "p_id g = p_id t"
  shows "\<exists>db' v. makeGuess db now input = (db', Inr v)
           \<and> is_completed (session v) \<and> is_won (session v)
           \<and> completed_at (session v) = Some now
           \<and> updatedSessionResults db' (mg_session_id input) \<noteq> []
           \<and> list_all (\<lambda>u. is_completed u \<and> is_won u \<and> completed_at u = Some now)
                 (updatedSessionResults db' (mg_session_id input))"
proof -
  from makeGuess_admit [OF sel act room res, of now]
  obtain u us v where u: "updatedSessionResults db (mg_session_id input) = u # us"
    and mg: "makeGuess db now input = (admitted db now (mg_session_id input) s t g, Inr v)"
    and v: "is_completed (session v)" "is_won (session v)" "completed_at (session v) = Some now"
    using hit by (auto simp: admitted_view_def)
  have "updatedSessionResults (admitted db now (mg_session_id input) s t g) (mg_session_id input) \<noteq> []
        \<and> list_all (\<lambda>u. is_completed u \<and> is_won u \<and> completed_at u = Some now)
             (updatedSessionResults (admitted db now (mg_session_id input) s t g) (mg_session_id input))"
    using hit u by (simp add: admitted_rows list_all_iff)
  with mg v show ?thesis by blast
qed

text \<open>
  C5. When the session is not completed and has guesses left and the name resolves
  to an entity whose id is not the target's, \<open>makeGuess\<close> succeeds; if this was the last
  guess of the budget (\<open>current_guesses = max_guesses - 1\<close>) the session is
  Completed-Lost afterwards (completed, not won, completion time set), and otherwise it
  stays Active (not completed, not won, no completion time), in the returned view and
  in every stored row of that session.
\<close>

theorem makeGuess_incorrect_guess:
  assumes sel: "gameSessionResults db (mg_session_id input) = (s, d, t) # rest"
    and act: "\<not> is_completed s"
    and room: "current_guesses s < max_guesses s"
    and res: "guessedPokemonResults db (toLowerCase (pokemon_name input)) = g # rest'"
    and miss: "p_id g \<noteq> p_id t"
  shows "\<exists>db' v. makeGuess db now input = (db', Inr v)
           \<and> updatedSessionResults db' (mg_session_id input) \<noteq> []
           \<and> (if current_guesses s = max_guesses s - 1
               then is_completed (session v) \<and> \<not> is_won (session v)
                    \<and> completed_at (session v) = Some now
                    \<and> list_all (\<lambda>u. is_completed u \<and> \<not> is_won u \<and> completed_at u = Some now)
                          (updatedSessionResults db' (mg_session_id input))
               else \<not> is_completed (session v) \<and> \<not> is_won (session v)
                    \<and> completed_at (session v) = None
                    \<and> list_all (\<lambda>u. \<not> is_completed u \<and> \<not> is_won u \<and> completed_at u = None)
                          (updatedSessionResults db' (mg_session_id input)))"
proof -
  let ?db' = "admitted db now (mg_session_id input) s t g"
  from makeGuess_admit [OF sel act room res, of now]
  obtain u us v where u: "updatedSessionResults db (mg_session_id input) = u # us"
    and mg: "makeGuess db now input = (?db', Inr v)"
    and v: "is_completed (session v) = (current_guesses s + 1 \<ge> max_guesses s)"
       "\<not> is_won (session v)"
       "completed_at (session v) = (if current_guesses s + 1 \<ge> max_guesses s then Some now else None)"
    using miss by (auto simp: admitted_view_def)
  have rows: "updatedSessionResults ?db' (mg_session_id input) \<noteq> []"
    using u by (simp add: admitted_rows)
  have all: "list_all (\<lambda>r. is_completed r = (current_guesses s + 1 \<ge> max_guesses s) \<and> \<not> is_won r
                \<and> completed_at r = (if current_guesses s + 1 \<ge> max_guesses s then Some now else None))
               (updatedSessionResults ?db' (mg_session_id input))"
    using miss by (simp add: admitted_rows list_all_iff)
  show ?thesis
  proof (cases "current_guesses s = max_guesses s - 1")
    case True
    then have "current_guesses s + 1 \<ge> max_guesses s" by simp
    with all v mg rows True show ?thesis by (auto simp: list_all_iff)
  next
    case False
    with room have "\<not> current_guesses s + 1 \<ge> max_guesses s" by simp
    with all v mg rows False show ?thesis by (auto simp: list_all_iff)
  qed
qed

lemma makeGuess_Inl:
  assumes "makeGuess db now input = (db', Inl e)"
  shows "db' = db \<and> e \<noteq> TypeError"
  using makeGuess_outcome [of db input now] assms by auto

text \<open>
  C6. Each failure path of \<open>makeGuess\<close> throws its error and returns the state it was
  given: no session found, the session completed, the budget used up, the name not
  resolved. And whatever error \<open>makeGuess\<close> throws, the state is unchanged.
\<close>

theorem makeGuess_failure_unchanged:
  "(gameSessionResults db (mg_session_id input) = []
      \<longrightarrow> makeGuess db now input = (db, Inl GameSessionNotFound))
   \<and> (\<forall>s d t rest. gameSessionResults db (mg_session_id input) = (s, d, t) # rest \<longrightarrow>
         (is_completed s \<longrightarrow> makeGuess db now input = (db, Inl GameSessionAlreadyCompleted))
       \<and> (\<not> is_completed s \<and> current_guesses s \<ge> max_guesses s
            \<longrightarrow> makeGuess db now input = (db, Inl MaximumGuessesReached))
       \<and> (\<not> is_completed s \<and> current_guesses s < max_guesses s
            \<and> guessedPokemonResults db (toLowerCase (pokemon_name input)) = []
            \<longrightarrow> makeGuess db now input = (db, Inl PokemonNotFound)))
   \<and> (\<forall>db' e. makeGuess db now input = (db', Inl e) \<longrightarrow> db' = db)"
  using makeGuess_outcome [of db input now] by auto


lemma makeGuess_Inr:
  assumes "makeGuess db now input = (db', Inr v)"
  shows "\<exists>s d t rest g rest' u us.
           gameSessionResults db (mg_session_id input) = (s, d, t) # rest
           \<and> \<not> is_completed s \<and> current_guesses s < max_guesses s
           \<and> guessedPokemonResults db (toLowerCase (pokemon_name input)) = g # rest'
           \<and> updatedSessionResults db (mg_session_id input) = u # us
           \<and> db' = admitted db now (mg_session_id input) s t g
           \<and> v = admitted_view now s t g u (guessResults db' (mg_session_id input))"
  using makeGuess_outcome [of db input now] assms by auto

lemma getGameSession_Inr:
  assumes "getGameSession db input = Inr v"
  shows "\<exists>s d t rest.
           gameSessionResults db (gs_session_id input) = (s, d, t) # rest
           \<and> session v = s
           \<and> target_pokemon v = (if is_completed s then Some t else None)
           \<and> can_guess v = (\<not> is_completed s \<and> current_guesses s < max_guesses s)
           \<and> guesses v =
               sort_key (\<lambda>e. guess_number (guess e))
                 (map (\<lambda>(guessRow, guessedPokemon).
                         \<lparr> guess = guessRow, pokemon = guessedPokemon,
                           feedback = generateFeedback guessedPokemon t \<rparr>)
                    (guessResults db (gs_session_id input)))"
  using assms
  by (auto simp: getGameSession_def Let_def split: list.splits)

text \<open>
  C8. In the view returned by \<open>getGameSession\<close> and in the view returned by
  \<open>makeGuess\<close>, \<open>target_pokemon\<close> is the session's target when the view's session is
  completed and null when it is not.
\<close>

theorem target_revealed_iff_completed:
  "(getGameSession db gi = Inr v \<longrightarrow>
      (\<exists>s d t rest. gameSessionResults db (gs_session_id gi) = (s, d, t) # rest
         \<and> target_pokemon v = (if is_completed (session v) then Some t else None)))
   \<and> (makeGuess db now mi = (db', Inr v') \<longrightarrow>
      (\<exists>s d t rest. gameSessionResults db (mg_session_id mi) = (s, d, t) # rest
         \<and> target_pokemon v' = (if is_completed (session v') then Some t else None)))"
proof (intro conjI impI)
  assume "getGameSession db gi = Inr v"
  from getGameSession_Inr [OF this] show
    "\<exists>s d t rest. gameSessionResults db (gs_session_id gi) = (s, d, t) # rest
         \<and> target_pokemon v = (if is_completed (session v) then Some t else None)"
    by auto
next
  assume "makeGuess db now mi = (db', Inr v')"
  from makeGuess_Inr [OF this] obtain s d t rest g u
    where sel: "gameSessionResults db (mg_session_id mi) = (s, d, t) # rest"
      and v': "v' = admitted_view now s t g u (guessResults db' (mg_session_id mi))"
    by blast
  have "target_pokemon v' = (if is_completed (session v') then Some t else None)"
    by (simp add: v' admitted_view_def)
  with sel show
    "\<exists>s d t rest. gameSessionResults db (mg_session_id mi) = (s, d, t) # rest
         \<and> target_pokemon v' = (if is_completed (session v') then Some t else None)"
    by blast
qed

text \<open>
  C10, as the code has it. In the view of \<open>getGameSession\<close>, \<open>can_guess\<close> holds exactly
  when the session is not completed and \<open>current_guesses < max_guesses\<close>; in the view
  returned by \<open>makeGuess\<close>, exactly when the updated session is not completed.
\<close>

theorem can_guess_views:
  "(getGameSession db gi = Inr v \<longrightarrow>
      can_guess v = (\<not> is_completed (session v)
                      \<and> current_guesses (session v) < max_guesses (session v)))
   \<and> (makeGuess db now mi = (db', Inr v') \<longrightarrow> can_guess v' = (\<not> is_completed (session v')))"
proof (intro conjI impI)
  assume "getGameSession db gi = Inr v"
  from getGameSession_Inr [OF this] show
    "can_guess v = (\<not> is_completed (session v)
                      \<and> current_guesses (session v) < max_guesses (session v))"
    by auto
next
  assume "makeGuess db now mi = (db', Inr v')"
  from makeGuess_Inr [OF this] show "can_guess v' = (\<not> is_completed (session v'))"
    by (auto simp: admitted_view_def)
qed

lemma sort_snoc_upto:
  assumes "sort xs = [1..n]" and "0 \<le> n"
  shows "sort (xs @ [n + 1]) = [1..n + 1]"
proof (rule properties_for_sort)
  have "mset xs = mset [1..n]"
    using assms(1) by (metis mset_sort)
  moreover have "[1..n + 1] = [1..n] @ [n + 1]"
    using assms(2) by (simp add: upto_rec2)
  ultimately show "mset [1..n + 1] = mset (xs @ [n + 1])"
    by simp
  show "sorted [1..n + 1]"
    by simp
qed

lemma admitted_guess_numbers:
  "session_guess_numbers (admitted db now sid s t g) sid' =
     session_guess_numbers db sid' @ (if sid = sid' then [current_guesses s + 1] else [])"
  by (simp add: session_guess_numbers_def admitted_def insert_game_guess_def
      update_game_session_def)

lemma admitted_sessions:
  "gameSessionTable (admitted db now sid s t g) =
     map (\<lambda>r. if session_id r = sid
               then r \<lparr> current_guesses := current_guesses s + 1,
                        is_completed := (p_id g = p_id t \<or> current_guesses s + 1 \<ge> max_guesses s),
                        is_won := (p_id g = p_id t),
                        completed_at :=
                          (if p_id g = p_id t \<or> current_guesses s + 1 \<ge> max_guesses s
                           then Some now else None) \<rparr>
               else r)
       (gameSessionTable db)"
  by (simp add: admitted_def insert_game_guess_def update_game_session_def)

lemma admitted_session_ids:
  "map session_id (gameSessionTable (admitted db now sid s t g)) =
     map session_id (gameSessionTable db)"
  by (simp add: admitted_sessions comp_def if_distrib cong: if_cong)

lemma admitted_invariant:
  assumes wf: "well_formed db"
    and inv: "list_all (session_invariant db) (gameSessionTable db)"
    and mem: "s \<in> set (gameSessionTable db)" and sid: "session_id s = sid"
    and act: "\<not> is_completed s" and room: "current_guesses s < max_guesses s"
  shows "well_formed (admitted db now sid s t g)
         \<and> list_all (session_invariant (admitted db now sid s t g))
              (gameSessionTable (admitted db now sid s t g))"
proof -
  let ?db' = "admitted db now sid s t g"
  from wf have dist: "distinct (map session_id (gameSessionTable db))"
    and nonneg: "\<And>r. r \<in> set (gameSessionTable db) \<Longrightarrow> 0 \<le> current_guesses r"
    by (auto simp: well_formed_def list_all_iff)
  from inv have invr: "\<And>r. r \<in> set (gameSessionTable db) \<Longrightarrow> session_invariant db r"
    by (simp add: list_all_iff)
  have only: "r = s" if "r \<in> set (gameSessionTable db)" "session_id r = sid" for r
    using dist that mem sid by (auto simp: distinct_map dest: inj_onD)
  have s0: "0 \<le> current_guesses s" using nonneg mem by blast
  have "distinct (map session_id (gameSessionTable ?db'))"
    using dist by (simp only: admitted_session_ids)
  moreover have "list_all (\<lambda>r. 0 \<le> current_guesses r) (gameSessionTable ?db')"
    using nonneg s0 by (auto simp: list_all_iff admitted_sessions)
  ultimately have wf': "well_formed ?db'"
    by (simp add: well_formed_def)
  have "session_invariant ?db' r'" if r': "r' \<in> set (gameSessionTable ?db')" for r'
  proof -
    from r' obtain r where r: "r \<in> set (gameSessionTable db)"
      and r'_def: "r' = (if session_id r = sid
               then r \<lparr> current_guesses := current_guesses s + 1,
                        is_completed := (p_id g = p_id t \<or> current_guesses s + 1 \<ge> max_guesses s),
                        is_won := (p_id g = p_id t),
                        completed_at :=
                          (if p_id g = p_id t \<or> current_guesses s + 1 \<ge> max_guesses s
                           then Some now else None) \<rparr>
               else r)"
      by (auto simp: admitted_sessions)
    show ?thesis
    proof (cases "session_id r = sid")
      case True
      with r only have rs: "r = s" by blast
      from invr [OF mem] have "sort (session_guess_numbers db sid) = [1..current_guesses s]"
        by (simp add: session_invariant_def sid)
      from sort_snoc_upto [OF this s0]
      have "sort (session_guess_numbers ?db' sid) = [1..current_guesses s + 1]"
        by (simp add: admitted_guess_numbers)
      with room show ?thesis
        by (simp add: r'_def rs sid session_invariant_def)
    next
      case False
      then have "r' = r" by (simp add: r'_def)
      moreover have "session_guess_numbers ?db' (session_id r) = session_guess_numbers db (session_id r)"
        using False by (auto simp: admitted_guess_numbers)
      ultimately show ?thesis
        using invr [OF r] by (simp add: session_invariant_def)
    qed
  qed
  then have "list_all (session_invariant ?db') (gameSessionTable ?db')"
    by (simp add: list_all_iff)
  with wf' show ?thesis by blast
qed

text \<open>
  C9, as the code has it. In a state where session identifiers are unique and guess
  counts are not negative, if every session satisfies the session invariant, then so
  does every session of the state after \<open>makeGuess\<close>, whether the call succeeded or
  failed, and that state again has unique session identifiers and non-negative counts.
\<close>

theorem makeGuess_preserves_invariant:
  assumes wf: "well_formed db"
    and inv: "list_all (session_invariant db) (gameSessionTable db)"
  shows "well_formed (fst (makeGuess db now input))
         \<and> list_all (session_invariant (fst (makeGuess db now input)))
              (gameSessionTable (fst (makeGuess db now input)))"
proof (cases "snd (makeGuess db now input)")
  case (Inl e)
  then have "makeGuess db now input = (fst (makeGuess db now input), Inl e)"
    by (metis prod.collapse)
  from makeGuess_Inl [OF this] have "fst (makeGuess db now input) = db" by simp
  with wf inv show ?thesis by simp
next
  case (Inr v)
  then have "makeGuess db now input = (fst (makeGuess db now input), Inr v)"
    by (metis prod.collapse)
  from makeGuess_Inr [OF this] obtain s d t rest g
    where sel: "gameSessionResults db (mg_session_id input) = (s, d, t) # rest"
      and act: "\<not> is_completed s" and room: "current_guesses s < max_guesses s"
      and db': "fst (makeGuess db now input) = admitted db now (mg_session_id input) s t g"
    by blast
  from gameSessionResults_hd_member [OF sel]
  have mem: "s \<in> set (gameSessionTable db)" and sid: "session_id s = mg_session_id input"
    by simp_all
  from admitted_invariant [OF wf inv mem sid act room] show ?thesis
    by (simp add: db')
qed

text \<open>The history \<open>getGameSession\<close> returns is sorted by sequence number.\<close>

lemma getGameSession_sorted:
  assumes "getGameSession db input = Inr v"
  shows "sorted (map (\<lambda>e. guess_number (guess e)) (guesses v))"
  using getGameSession_Inr [OF assms] by auto


subsection \<open>The theorems at example states\<close>

lemma test_db_session:
  "gameSessionResults (test_db (test_session m n fin) gs) ''test-session-123'' =
     [(test_session m n fin, test_daily, pikachu)]"
  by (simp add: gameSessionResults_def test_db_def test_session_def test_daily_def
      pikachu_def charmander_def)

lemma test_db_no_session:
  "gameSessionResults (test_db (test_session m n fin) gs) ''non-existent-session'' = []"
  by (simp add: gameSessionResults_def test_db_def test_session_def test_daily_def
      pikachu_def charmander_def)

lemma toLowerCase_Pikachu: "toLowerCase ''Pikachu'' = ''pikachu''"
  by code_simp

lemma test_db_pikachu:
  "guessedPokemonResults (test_db s gs) (toLowerCase ''Pikachu'') = [pikachu]"
  by (simp add: toLowerCase_Pikachu guessedPokemonResults_def test_db_def pikachu_def
      charmander_def)

lemma test_db_charmander:
  "guessedPokemonResults (test_db s gs) (toLowerCase ''charmander'') = [charmander]"
  by (simp add: guessedPokemonResults_def test_db_def pikachu_def charmander_def
      toLowerCase_def toLowerCase_char_def)

lemma test_db_missingno:
  "guessedPokemonResults (test_db s gs) (toLowerCase ''non-existent-pokemon'') = []"
  by (simp add: guessedPokemonResults_def test_db_def pikachu_def charmander_def
      toLowerCase_def toLowerCase_char_def)

theorem makeGuess_correct_guess_wins_witness:
  "gameSessionResults (test_db (test_session 6 0 False) []) (mg_session_id (guess_input ''Pikachu''))
     = [(test_session 6 0 False, test_daily, pikachu)]
   \<and> \<not> is_completed (test_session 6 0 False)
   \<and> current_guesses (test_session 6 0 False) < max_guesses (test_session 6 0 False)
   \<and> guessedPokemonResults (test_db (test_session 6 0 False) [])
        (toLowerCase (pokemon_name (guess_input ''Pikachu''))) = [pikachu]
   \<and> (\<exists>db' v. makeGuess (test_db (test_session 6 0 False) []) 100 (guess_input ''Pikachu'')
                  = (db', Inr v)
         \<and> is_completed (session v) \<and> is_won (session v)
         \<and> completed_at (session v) = Some 100
         \<and> updatedSessionResults db' (mg_session_id (guess_input ''Pikachu'')) \<noteq> []
         \<and> list_all (\<lambda>u. is_completed u \<and> is_won u \<and> completed_at u = Some 100)
               (updatedSessionResults db' (mg_session_id (guess_input ''Pikachu''))))"
proof -
  let ?db = "test_db (test_session 6 0 False) []"
  let ?input = "guess_input ''Pikachu''"
  have sel: "gameSessionResults ?db (mg_session_id ?input)
               = [(test_session 6 0 False, test_daily, pikachu)]"
    by (simp add: guess_input_def test_db_session)
  have act: "\<not> is_completed (test_session 6 0 False)"
    by (simp add: test_session_def)
  have room: "current_guesses (test_session 6 0 False) < max_guesses (test_session 6 0 False)"
    by (simp add: test_session_def)
  have res: "guessedPokemonResults ?db (toLowerCase (pokemon_name ?input)) = [pikachu]"
    by (simp add: guess_input_def test_db_pikachu)
  have hit: "p_id pikachu = p_id pikachu"
    by simp
  from makeGuess_correct_guess_wins [OF sel act room res hit, of 100] sel act room res
  show ?thesis by blast
qed

theorem makeGuess_incorrect_guess_witness:
  "(\<exists>db' v. makeGuess (test_db (test_session 2 1 False) [test_guess 1 1]) 100
                (guess_input ''charmander'') = (db', Inr v)
        \<and> is_completed (session v) \<and> \<not> is_won (session v)
        \<and> completed_at (session v) = Some 100)
   \<and> (\<exists>db' v. makeGuess (test_db (test_session 2 0 False) []) 100
                (guess_input ''charmander'') = (db', Inr v)
        \<and> \<not> is_completed (session v) \<and> \<not> is_won (session v)
        \<and> completed_at (session v) = None)"
proof -
  let ?input = "guess_input ''charmander''"
  have miss: "p_id charmander \<noteq> p_id pikachu"
    by (simp add: charmander_def pikachu_def)
  have res: "guessedPokemonResults (test_db s gs) (toLowerCase (pokemon_name ?input)) = [charmander]"
    for s gs
    by (simp add: guess_input_def test_db_charmander)
  have sel: "gameSessionResults (test_db (test_session m n False) gs) (mg_session_id ?input)
               = [(test_session m n False, test_daily, pikachu)]" for m n gs
    by (simp add: guess_input_def test_db_session)
  have last: "\<not> is_completed (test_session 2 1 False)"
      "current_guesses (test_session 2 1 False) < max_guesses (test_session 2 1 False)"
      "current_guesses (test_session 2 1 False) = max_guesses (test_session 2 1 False) - 1"
    by (simp_all add: test_session_def)
  have first: "\<not> is_completed (test_session 2 0 False)"
      "current_guesses (test_session 2 0 False) < max_guesses (test_session 2 0 False)"
      "current_guesses (test_session 2 0 False) \<noteq> max_guesses (test_session 2 0 False) - 1"
    by (simp_all add: test_session_def)
  from makeGuess_incorrect_guess [OF sel last(1,2) res miss, of "[test_guess 1 1]" 100] last(3)
  have a: "\<exists>db' v. makeGuess (test_db (test_session 2 1 False) [test_guess 1 1]) 100 ?input = (db', Inr v)
        \<and> is_completed (session v) \<and> \<not> is_won (session v)
        \<and> completed_at (session v) = Some 100"
    by auto
  from makeGuess_incorrect_guess [OF sel first(1,2) res miss, of "[]" 100] first(3)
  have b: "\<exists>db' v. makeGuess (test_db (test_session 2 0 False) []) 100 ?input = (db', Inr v)
        \<and> \<not> is_completed (session v) \<and> \<not> is_won (session v)
        \<and> completed_at (session v) = None"
    by auto
  from a b show ?thesis by blast
qed

theorem makeGuess_failure_unchanged_witness:
  "makeGuess (test_db (test_session 6 0 False) []) 100 other_input
     = (test_db (test_session 6 0 False) [], Inl GameSessionNotFound)
   \<and> makeGuess (test_db (test_session 6 1 True) [test_guess 1 1]) 100 (guess_input ''charmander'')
     = (test_db (test_session 6 1 True) [test_guess 1 1], Inl GameSessionAlreadyCompleted)
   \<and> makeGuess (test_db (test_session 6 6 False) []) 100 (guess_input ''charmander'')
     = (test_db (test_session 6 6 False) [], Inl MaximumGuessesReached)
   \<and> makeGuess (test_db (test_session 6 0 False) []) 100 (guess_input ''non-existent-pokemon'')
     = (test_db (test_session 6 0 False) [], Inl PokemonNotFound)"
proof -
  have sel: "gameSessionResults (test_db (test_session m n fin) gs) (mg_session_id (guess_input nm))
               = (test_session m n fin, test_daily, pikachu) # []" for m n fin gs nm
    by (simp add: guess_input_def test_db_session)
  have none: "gameSessionResults (test_db (test_session 6 0 False) []) (mg_session_id other_input) = []"
    by (simp add: other_input_def test_db_no_session)
  have a: "makeGuess (test_db (test_session 6 0 False) []) 100 other_input
     = (test_db (test_session 6 0 False) [], Inl GameSessionNotFound)"
    using makeGuess_failure_unchanged [of "test_db (test_session 6 0 False) []" other_input 100] none
    by blast
  have "is_completed (test_session 6 1 True)"
    by (simp add: test_session_def)
  then have b: "makeGuess (test_db (test_session 6 1 True) [test_guess 1 1]) 100 (guess_input ''charmander'')
     = (test_db (test_session 6 1 True) [test_guess 1 1], Inl GameSessionAlreadyCompleted)"
    using makeGuess_failure_unchanged [of "test_db (test_session 6 1 True) [test_guess 1 1]"
        "guess_input ''charmander''" 100] sel
    by blast
  have "\<not> is_completed (test_session 6 6 False)
        \<and> current_guesses (test_session 6 6 False) \<ge> max_guesses (test_session 6 6 False)"
    by (simp add: test_session_def)
  then have c: "makeGuess (test_db (test_session 6 6 False) []) 100 (guess_input ''charmander'')
     = (test_db (test_session 6 6 False) [], Inl MaximumGuessesReached)"
    using makeGuess_failure_unchanged [of "test_db (test_session 6 6 False) []"
        "guess_input ''charmander''" 100] sel
    by blast
  have "\<not> is_completed (test_session 6 0 False)
        \<and> current_guesses (test_session 6 0 False) < max_guesses (test_session 6 0 False)
        \<and> guessedPokemonResults (test_db (test_session 6 0 False) [])
             (toLowerCase (pokemon_name (guess_input ''non-existent-pokemon''))) = []"
    by (simp add: test_session_def guess_input_def test_db_missingno)
  then have d: "makeGuess (test_db (test_session 6 0 False) []) 100 (guess_input ''non-existent-pokemon'')
     = (test_db (test_session 6 0 False) [], Inl PokemonNotFound)"
    using makeGuess_failure_unchanged [of "test_db (test_session 6 0 False) []"
        "guess_input ''non-existent-pokemon''" 100] sel
    by blast
  from a b c d show ?thesis by blast
qed


lemma upto_1_2: "[1..2] = [1, 2::int]"
  by code_simp

lemmas eval_defs = makeGuess_def getGameSession_def Let_def test_db_def test_session_def
  test_guess_def guess_input_def view_input_def pikachu_def charmander_def test_daily_def
  gameSessionResults_def guessedPokemonResults_def updatedSessionResults_def guessResults_def
  insert_game_guess_def update_game_session_def toLowerCase_def toLowerCase_char_def

theorem target_revealed_iff_completed_witness:
  "(\<exists>v. getGameSession (test_db (test_session 2 2 True) [test_guess 1 1, test_guess 2 2]) view_input
            = Inr v
        \<and> is_completed (session v) \<and> target_pokemon v = Some pikachu)
   \<and> (\<exists>v. getGameSession (test_db (test_session 2 0 False) []) view_input = Inr v
        \<and> \<not> is_completed (session v) \<and> target_pokemon v = None)
   \<and> (\<exists>db' v. makeGuess (test_db (test_session 2 0 False) []) 100 (guess_input ''pikachu'')
            = (db', Inr v)
        \<and> is_completed (session v) \<and> target_pokemon v = Some pikachu)
   \<and> (\<exists>db' v. makeGuess (test_db (test_session 2 0 False) []) 100 (guess_input ''charmander'')
            = (db', Inr v)
        \<and> \<not> is_completed (session v) \<and> target_pokemon v = None)"
proof -
  let ?done = "test_db (test_session 2 2 True) [test_guess 1 1, test_guess 2 2]"
  let ?fresh = "test_db (test_session 2 0 False) []"
  have sel: "gameSessionResults (test_db (test_session m n fin) gs) ''test-session-123''
               = [(test_session m n fin, test_daily, pikachu)]" for m n fin gs
    by (rule test_db_session)
  obtain v1 where v1: "getGameSession ?done view_input = Inr v1" "is_completed (session v1)"
    by (simp add: eval_defs)
  obtain v2 where v2: "getGameSession ?fresh view_input = Inr v2" "\<not> is_completed (session v2)"
    by (simp add: eval_defs)
  obtain d3 v3 where v3: "makeGuess ?fresh 100 (guess_input ''pikachu'') = (d3, Inr v3)"
      "is_completed (session v3)"
    by (simp add: eval_defs)
  obtain d4 v4 where v4: "makeGuess ?fresh 100 (guess_input ''charmander'') = (d4, Inr v4)"
      "\<not> is_completed (session v4)"
    by (simp add: eval_defs)
  have a: "target_pokemon v1 = Some pikachu"
    using target_revealed_iff_completed [of ?done view_input v1] v1 sel
    by (auto simp: view_input_def)
  have b: "target_pokemon v2 = None"
    using target_revealed_iff_completed [of ?fresh view_input v2] v2 sel
    by (auto simp: view_input_def)
  have c: "target_pokemon v3 = Some pikachu"
    using target_revealed_iff_completed [where db = ?fresh and now = 100 and mi = "guess_input ''pikachu''" and db' = d3 and v' = v3] v3 sel
    by (auto simp: guess_input_def)
  have d: "target_pokemon v4 = None"
    using target_revealed_iff_completed [where db = ?fresh and now = 100 and mi = "guess_input ''charmander''" and db' = d4 and v' = v4] v4 sel
    by (auto simp: guess_input_def)
  from v1 v2 v3 v4 a b c d show ?thesis by blast
qed

theorem can_guess_views_witness:
  "(\<exists>v. getGameSession (test_db (test_session 2 0 False) []) view_input = Inr v
        \<and> \<not> is_completed (session v)
        \<and> current_guesses (session v) < max_guesses (session v) \<and> can_guess v)
   \<and> (\<exists>db' v. makeGuess (test_db (test_session 2 0 False) []) 100 (guess_input ''charmander'')
            = (db', Inr v)
        \<and> \<not> is_completed (session v) \<and> can_guess v)
   \<and> (\<exists>db' v. makeGuess (test_db (test_session 2 0 False) []) 100 (guess_input ''pikachu'')
            = (db', Inr v)
        \<and> is_completed (session v) \<and> \<not> can_guess v)"
proof -
  let ?fresh = "test_db (test_session 2 0 False) []"
  obtain v2 where v2: "getGameSession ?fresh view_input = Inr v2" "\<not> is_completed (session v2)"
      "current_guesses (session v2) < max_guesses (session v2)"
    by (simp add: eval_defs)
  obtain d3 v3 where v3: "makeGuess ?fresh 100 (guess_input ''pikachu'') = (d3, Inr v3)"
      "is_completed (session v3)"
    by (simp add: eval_defs)
  obtain d4 v4 where v4: "makeGuess ?fresh 100 (guess_input ''charmander'') = (d4, Inr v4)"
      "\<not> is_completed (session v4)"
    by (simp add: eval_defs)
  have a: "can_guess v2"
    using can_guess_views [of ?fresh view_input v2] v2 by blast
  have b: "can_guess v4"
    using can_guess_views [where db = ?fresh and now = 100 and mi = "guess_input ''charmander''" and db' = d4 and v' = v4] v4 by blast
  have c: "\<not> can_guess v3"
    using can_guess_views [where db = ?fresh and now = 100 and mi = "guess_input ''pikachu''" and db' = d3 and v' = v3] v3 by blast
  from v2 v3 v4 a b c show ?thesis by blast
qed

text \<open>
  C10, as stated, fails for \<open>getGameSession\<close>: on a stored session that satisfies the
  session invariant, is not completed and has \<open>current_guesses = max_guesses\<close>, the view
  is returned with the session not completed and \<open>can_guess\<close> false.
\<close>

theorem can_guess_false_while_active:
  "well_formed stuck_db
   \<and> list_all (session_invariant stuck_db) (gameSessionTable stuck_db)
   \<and> \<not> isl (getGameSession stuck_db view_input)
   \<and> \<not> is_completed (session (projr (getGameSession stuck_db view_input)))
   \<and> \<not> can_guess (projr (getGameSession stuck_db view_input))"
  by (simp add: stuck_db_def eval_defs well_formed_def session_invariant_def
      session_guess_numbers_def upto_1_2)

text \<open>
  C7. Where the two guesses of a session are stored second guess first, the view
  \<open>makeGuess\<close> returns after admitting a third guess lists the sequence numbers 2, 1, 3,
  the storage order, while \<open>getGameSession\<close> on the same stored rows lists 1, 2.
\<close>

theorem makeGuess_view_in_storage_order:
  "\<not> isl (snd (makeGuess unordered_db 100 (guess_input ''charmander'')))
   \<and> map (\<lambda>e. guess_number (guess e))
        (guesses (projr (snd (makeGuess unordered_db 100 (guess_input ''charmander'')))))
      = [2, 1, 3]
   \<and> map (\<lambda>e. guess_number (guess e)) (guesses (projr (getGameSession unordered_db view_input)))
      = [1, 2]"
  by (simp add: unordered_db_def eval_defs)

lemma unordered_db_invariant:
  "well_formed unordered_db
   \<and> list_all (session_invariant unordered_db) (gameSessionTable unordered_db)"
  by (simp add: unordered_db_def test_db_def test_session_def test_guess_def well_formed_def
      session_invariant_def session_guess_numbers_def upto_1_2)

theorem makeGuess_preserves_invariant_witness:
  "well_formed (test_db (test_session 6 2 False) [test_guess 1 1, test_guess 2 2])
   \<and> list_all (session_invariant (test_db (test_session 6 2 False) [test_guess 1 1, test_guess 2 2]))
       (gameSessionTable (test_db (test_session 6 2 False) [test_guess 1 1, test_guess 2 2]))
   \<and> well_formed
       (fst (makeGuess (test_db (test_session 6 2 False) [test_guess 1 1, test_guess 2 2]) 100
               (guess_input ''charmander'')))
   \<and> list_all
       (session_invariant
          (fst (makeGuess (test_db (test_session 6 2 False) [test_guess 1 1, test_guess 2 2]) 100
                  (guess_input ''charmander''))))
       (gameSessionTable
          (fst (makeGuess (test_db (test_session 6 2 False) [test_guess 1 1, test_guess 2 2]) 100
                  (guess_input ''charmander''))))
   \<and> map current_guesses
       (gameSessionTable
          (fst (makeGuess (test_db (test_session 6 2 False) [test_guess 1 1, test_guess 2 2]) 100
                  (guess_input ''charmander'')))) = [3]"
proof -
  let ?db = "test_db (test_session 6 2 False) [test_guess 1 1, test_guess 2 2]"
  have wf: "well_formed ?db"
    by (simp add: well_formed_def test_db_def test_session_def)
  have inv: "list_all (session_invariant ?db) (gameSessionTable ?db)"
    by (simp add: session_invariant_def session_guess_numbers_def test_db_def test_session_def
        test_guess_def upto_1_2)
  have step: "map current_guesses (gameSessionTable (fst (makeGuess ?db 100 (guess_input ''charmander''))))
                = [3]"
    by (simp add: eval_defs)
  from makeGuess_preserves_invariant [OF wf inv, of 100 "guess_input ''charmander''"] wf inv step
  show ?thesis by blast
qed

text \<open>
  C9, as stated, fails: the four-part invariant alone is not preserved. With a stored
  count of -1 the admitted guess gets sequence number 0, which is outside
  \<open>1..current_guesses\<close>; with two rows sharing a session identifier the update
  rewrites both, and the row with the smaller budget ends with
  \<open>current_guesses > max_guesses\<close>. In both states every session satisfies the
  invariant before the call and some session does not after it.
\<close>

theorem invariant_alone_not_preserved:
  "list_all (session_invariant negative_db) (gameSessionTable negative_db)
   \<and> \<not> list_all
         (session_invariant (fst (makeGuess negative_db 100 (guess_input ''charmander''))))
         (gameSessionTable (fst (makeGuess negative_db 100 (guess_input ''charmander''))))
   \<and> session_guess_numbers (fst (makeGuess negative_db 100 (guess_input ''charmander'')))
        ''test-session-123'' = [0]
   \<and> list_all (session_invariant duplicate_db) (gameSessionTable duplicate_db)
   \<and> \<not> list_all
         (session_invariant (fst (makeGuess duplicate_db 100 (guess_input ''charmander''))))
         (gameSessionTable (fst (makeGuess duplicate_db 100 (guess_input ''charmander''))))
   \<and> map (\<lambda>s. (current_guesses s, max_guesses s))
        (gameSessionTable (fst (makeGuess duplicate_db 100 (guess_input ''charmander''))))
      = [(3, 6), (3, 2)]"
  by (simp add: negative_db_def duplicate_db_def eval_defs session_invariant_def
      session_guess_numbers_def upto_1_2)

end
